theory Spec2Isabelle
  imports Main "HOL-Library.Sublist"
begin

section \<open>The wrapper template \<^verbatim>\<open>probe_wrapper.c\<close>\<close>

subsection \<open>The descriptors the template reads\<close>

text \<open>
  The template reads \<^verbatim>\<open>arg.c_type\<close> and \<^verbatim>\<open>arg.name\<close> of every element of
  \<^verbatim>\<open>probe.args\<close>, \<^verbatim>\<open>probe.name\<close>, and the top-level variable
  \<^verbatim>\<open>provider_name_with_hash\<close>. All of them are strings. The template is C source text, not
  markup: an expression tag writes its string as it is, with no character escaped (the
  spec: "rendered verbatim into generated source text").
\<close>

record argument =
  c_type :: string
  name :: string

record probe =
  name :: string
  args :: "argument list"

text \<open>
  Modelled from the spec: the Provider Descriptor, whose declaration is not among the
  sources. The spec gives it the two string fields \<open>name\<close> and \<open>name_with_hash\<close>; the
  template only ever sees the second, as its variable \<^verbatim>\<open>provider_name_with_hash\<close>.
\<close>

record provider =
  name :: string
  name_with_hash :: string

subsection \<open>Literal layout characters of the template\<close>

abbreviation NL :: string where
  "NL \<equiv> [CHR 0x0A]"

abbreviation TAB :: string where
  "TAB \<equiv> [CHR 0x09]"

subsection \<open>Printing the argument count\<close>

text \<open>
  \<^verbatim>\<open>{{ probe.args.len() }}\<close> prints an unsigned machine integer in decimal, most
  significant digit first, with no sign and no leading zero. The length of a list always
  fits the machine integer, so the count is a natural number here.
\<close>

definition digit_char :: "nat \<Rightarrow> char" where
  "digit_char d = ''0123456789'' ! d"

function display_usize :: "nat \<Rightarrow> string" where
  "display_usize n =
     (if n < 10 then [digit_char n]
      else display_usize (n div 10) @ [digit_char (n mod 10)])"
  by pat_completeness auto
termination
  by (relation "measure id") auto

declare display_usize.simps [simp del]

subsection \<open>The loop over the arguments\<close>

text \<open>
  \<^verbatim>\<open>{%for arg in probe.args %}{{ arg.c_type }} {{ arg.name }}{% if !loop.last %}, {% endif %}{%endfor%}\<close>

  One iteration writes the type, one space and the name, then the two characters
  \<open>, \<close> unless the iteration is the last one, which is the case exactly when no element
  follows the current one.
\<close>

fun for_args :: "argument list \<Rightarrow> string" where
  "for_args [] = []"
| "for_args (arg # rest) =
     c_type arg @ '' '' @ argument.name arg
       @ (if \<not> (rest = []) then '', '' else [])
       @ for_args rest"

subsection \<open>The template\<close>

text \<open>
  The nine lines of the template, one per line of the definition. No tag of the template
  trims white space, so every line break and every indentation of the template is part
  of the output; the file ends right after the closing brace.
\<close>

definition probe_wrapper :: "string \<Rightarrow> probe \<Rightarrow> string" where
  "probe_wrapper provider_name_with_hash probe =
     ''void '' @ provider_name_with_hash @ ''_'' @ probe.name probe @ ''('' @ NL
     @ ''    '' @ for_args (args probe) @ NL
     @ '') {'' @ NL
     @ ''    STAP_PROBE''
         @ (if length (args probe) > 0 then display_usize (length (args probe)) else [])
         @ ''('' @ NL
     @ TAB @ provider_name_with_hash @ '','' @ NL
     @ TAB @ probe.name probe @ NL
     @ TAB @ for_args (args probe) @ NL
     @ ''    );'' @ NL
     @ ''}''"

text \<open>Rendering from the two descriptors: the provider contributes its disambiguated name.\<close>

definition render :: "provider \<Rightarrow> probe \<Rightarrow> string" where
  "render prov probe = probe_wrapper (name_with_hash prov) probe"

subsection \<open>Notions the properties are stated with\<close>

text \<open>One parameter as the signature shows it: the type, a space, the name.\<close>

definition type_name_pair :: "argument \<Rightarrow> string" where
  "type_name_pair arg = c_type arg @ '' '' @ argument.name arg"

text \<open>
  A list of texts separated by \<open>, \<close>: nothing for the empty list, and a separator before
  every element but the first, so that none follows the last.
\<close>

fun comma_separated :: "string list \<Rightarrow> string" where
  "comma_separated [] = []"
| "comma_separated [x] = x"
| "comma_separated (x # y # zs) = x @ '', '' @ comma_separated (y # zs)"

text \<open>The number a string of decimal digits denotes.\<close>

definition digit_value :: "char \<Rightarrow> nat" where
  "digit_value c = of_char c - 48"

definition decimal_value :: "string \<Rightarrow> nat" where
  "decimal_value s = foldl (\<lambda>acc c. 10 * acc + digit_value c) 0 s"

text \<open>
  White space between the tokens of C source text carries no meaning. \<open>strip_layout\<close>
  removes it, so that two texts that differ only in their layout become equal.
\<close>

definition is_space :: "char \<Rightarrow> bool" where
  "is_space c = (c = CHR '' '' \<or> c = CHR 0x09 \<or> c = CHR 0x0A \<or> c = CHR 0x0B
                 \<or> c = CHR 0x0C \<or> c = CHR 0x0D)"

definition strip_layout :: "string \<Rightarrow> string" where
  "strip_layout s = filter (\<lambda>c. \<not> is_space c) s"

text \<open>The name of the macro the template invokes: \<open>STAP_PROBE\<close> and the optional suffix.\<close>

definition macro_name :: "probe \<Rightarrow> string" where
  "macro_name probe =
     ''STAP_PROBE''
       @ (if length (args probe) > 0 then display_usize (length (args probe)) else [])"









text \<open>The two probes of the spec's scenarios, and the provider of both.\<close>

definition acme :: provider where
  "acme = \<lparr> provider.name = ''acme'', name_with_hash = ''acme_ab12'' \<rparr>"

definition enter_probe :: probe where
  "enter_probe = \<lparr> probe.name = ''enter'', args = [] \<rparr>"

definition write_probe :: probe where
  "write_probe =
     \<lparr> probe.name = ''write'',
       args = [\<lparr> c_type = ''int'', argument.name = ''fd'' \<rparr>,
               \<lparr> c_type = ''const char*'', argument.name = ''buf'' \<rparr>] \<rparr>"

section \<open>The capability probe \<^verbatim>\<open>test-libstapsdt.c\<close>\<close>

text \<open>
  \<^verbatim>\<open>
  int main(int arc, char** argv) {
      SDTProvider_t* provider = providerInit("foo");
      providerDestroy(provider);
  }
  \<close>

  The program calls two functions of the library it is linked with. The library is not
  part of the program, so it is a parameter of the model: each of its functions takes the
  state of the world outside the program and returns the new one. A call that does not
  return (the library faults or never finishes) is \<open>None\<close>, and the program stops there.
\<close>

datatype SDTProvider_ptr = NULL | Provider nat

record 'w libstapsdt =
  providerInit :: "string \<Rightarrow> 'w \<Rightarrow> (SDTProvider_ptr \<times> 'w) option"
  providerDestroy :: "SDTProvider_ptr \<Rightarrow> 'w \<Rightarrow> 'w option"

text \<open>
  \<open>main\<close> has no return statement: control reaches the closing brace of \<open>main\<close>, which
  ends the program with status 0 (C99 and later). The parameters \<open>arc\<close> and \<open>argv\<close> are
  never read.
\<close>

definition main :: "'w libstapsdt \<Rightarrow> int \<Rightarrow> string list \<Rightarrow> 'w \<Rightarrow> (int \<times> 'w) option" where
  "main lib arc argv w =
     (case providerInit lib ''foo'' w of
        None \<Rightarrow> None
      | Some (provider, w1) \<Rightarrow>
          (case providerDestroy lib provider w1 of
             None \<Rightarrow> None
           | Some w2 \<Rightarrow> Some (0, w2)))"

subsection \<open>Observing the calls\<close>

text \<open>
  To see which calls the program makes, in which order and with which arguments, any
  library can be wrapped so that every call that returns is written to a log first. The
  log is part of the world the wrapped library works on.
\<close>

datatype call = Call_providerInit string | Call_providerDestroy SDTProvider_ptr

definition recording :: "'w libstapsdt \<Rightarrow> (call list \<times> 'w) libstapsdt" where
  "recording lib =
     \<lparr> providerInit = (\<lambda>name (log, w).
         case providerInit lib name w of
           None \<Rightarrow> None
         | Some (p, w') \<Rightarrow> Some (p, (log @ [Call_providerInit name], w'))),
       providerDestroy = (\<lambda>p (log, w).
         case providerDestroy lib p w of
           None \<Rightarrow> None
         | Some w' \<Rightarrow> Some (log @ [Call_providerDestroy p], w')) \<rparr>"

text \<open>
  Two libraries to run the program against. The world of both is the number of live
  providers. The first hands out a fresh provider and takes it back; the second cannot
  initialise a provider, returns the null pointer, and tolerates it on release.
\<close>

definition working_lib :: "nat libstapsdt" where
  "working_lib =
     \<lparr> providerInit = (\<lambda>name n. Some (Provider n, Suc n)),
       providerDestroy = (\<lambda>p n. case p of NULL \<Rightarrow> None | Provider k \<Rightarrow> Some (n - 1)) \<rparr>"

definition failing_lib :: "nat libstapsdt" where
  "failing_lib =
     \<lparr> providerInit = (\<lambda>name n. Some (NULL, n)),
       providerDestroy = (\<lambda>p n. Some n) \<rparr>"

section \<open>Properties of the wrapper template\<close>

subsection \<open>The loop writes a comma-separated list\<close>

lemma for_args_comma_separated:
  "for_args as = comma_separated (map type_name_pair as)"
proof (induction as)
  case Nil
  show ?case by simp
next
  case (Cons a as)
  show ?case
  proof (cases as)
    case Nil
    then show ?thesis by (simp add: type_name_pair_def)
  next
    case (Cons b bs)
    with Cons.IH show ?thesis by (simp add: type_name_pair_def)
  qed
qed

subsection \<open>The decimal suffix\<close>

lemma digit_cases:
  assumes "d < (10::nat)"
  obtains "d = 0" | "d = 1" | "d = 2" | "d = 3" | "d = 4"
    | "d = 5" | "d = 6" | "d = 7" | "d = 8" | "d = 9"
proof -
  from assms have "d = 0 \<or> d = 1 \<or> d = 2 \<or> d = 3 \<or> d = 4
      \<or> d = 5 \<or> d = 6 \<or> d = 7 \<or> d = 8 \<or> d = 9"
    by arith
  then show thesis using that by blast
qed

lemma digit_value_digit_char: "d < 10 \<Longrightarrow> digit_value (digit_char d) = d"
  by (erule digit_cases) (simp_all add: digit_char_def digit_value_def)

lemma digit_char_in_digits: "d < 10 \<Longrightarrow> digit_char d \<in> set ''0123456789''"
  by (erule digit_cases) (simp_all add: digit_char_def)

lemma digit_char_zero_iff: "d < 10 \<Longrightarrow> digit_char d = CHR ''0'' \<longleftrightarrow> d = 0"
  by (erule digit_cases) (simp_all add: digit_char_def)

lemma decimal_value_snoc: "decimal_value (s @ [c]) = 10 * decimal_value s + digit_value c"
  by (simp add: decimal_value_def)

lemma decimal_value_display_usize: "decimal_value (display_usize n) = n"
proof (induction n rule: display_usize.induct)
  case (1 n)
  show ?case
  proof (cases "n < 10")
    case True
    then show ?thesis
      by (simp add: display_usize.simps [of n] decimal_value_def digit_value_digit_char)
  next
    case False
    with 1 have "decimal_value (display_usize (n div 10)) = n div 10" by simp
    with False show ?thesis
      by (simp add: display_usize.simps [of n] decimal_value_snoc digit_value_digit_char)
  qed
qed

lemma display_usize_digits: "set (display_usize n) \<subseteq> set ''0123456789''"
proof (induction n rule: display_usize.induct)
  case (1 n)
  show ?case
  proof (cases "n < 10")
    case True
    then show ?thesis
      using digit_char_in_digits [of n] by (simp add: display_usize.simps [of n])
  next
    case False
    with 1 have "set (display_usize (n div 10)) \<subseteq> set ''0123456789''" by simp
    moreover have "digit_char (n mod 10) \<in> set ''0123456789''"
      by (rule digit_char_in_digits) simp
    ultimately show ?thesis using False
      by (simp add: display_usize.simps [of n])
  qed
qed

lemma display_usize_nonempty: "display_usize n \<noteq> []"
  by (simp add: display_usize.simps [of n])

lemma display_usize_no_leading_zero: "0 < n \<Longrightarrow> hd (display_usize n) \<noteq> CHR ''0''"
proof (induction n rule: display_usize.induct)
  case (1 n)
  show ?case
  proof (cases "n < 10")
    case True
    with "1.prems" show ?thesis
      by (simp add: display_usize.simps [of n] digit_char_zero_iff)
  next
    case False
    then have "0 < n div 10" by simp
    with 1 False have "hd (display_usize (n div 10)) \<noteq> CHR ''0''" by simp
    with False show ?thesis
      by (simp add: display_usize.simps [of n] display_usize_nonempty)
  qed
qed

subsection \<open>Plain descriptors add no statement punctuation\<close>




subsection \<open>The scenario with two arguments\<close>

text \<open>
  C1. For the provider name \<open>acme_ab12\<close> and the probe \<open>write\<close> with the arguments
  \<open>int fd\<close> and \<open>const char* buf\<close>, the theorem gives the rendered text character by
  character. Read without its layout, the text holds the signature
  \<open>acme_ab12_write(int fd, const char* buf)\<close> and an invocation of the macro with the
  suffix 2. The macro's arguments read \<open>(acme_ab12, write int fd, const char* buf)\<close>:
  line 6 of the template ends right after the probe's name, so no comma stands between
  \<open>write\<close> and \<open>int fd\<close>, and the text \<open>(acme_ab12, write, int fd, const char* buf)\<close>
  occurs nowhere in the output, whatever the layout.
\<close>

theorem probe_wrapper_write_scenario:
  "probe_wrapper ''acme_ab12'' write_probe =
      ''void acme_ab12_write('' @ NL
      @ ''    int fd, const char* buf'' @ NL
      @ '') {'' @ NL
      @ ''    STAP_PROBE2('' @ NL
      @ TAB @ ''acme_ab12,'' @ NL
      @ TAB @ ''write'' @ NL
      @ TAB @ ''int fd, const char* buf'' @ NL
      @ ''    );'' @ NL
      @ ''}''
   \<and> sublist (strip_layout ''acme_ab12_write(int fd, const char* buf)'')
         (strip_layout (probe_wrapper ''acme_ab12'' write_probe))
   \<and> sublist (strip_layout ''STAP_PROBE2(acme_ab12, write int fd, const char* buf);'')
         (strip_layout (probe_wrapper ''acme_ab12'' write_probe))
   \<and> \<not> sublist (strip_layout ''(acme_ab12, write, int fd, const char* buf)'')
         (strip_layout (probe_wrapper ''acme_ab12'' write_probe))"
proof -
  have rendered: "probe_wrapper ''acme_ab12'' write_probe =
      ''void acme_ab12_write('' @ NL
      @ ''    int fd, const char* buf'' @ NL
      @ '') {'' @ NL
      @ ''    STAP_PROBE2('' @ NL
      @ TAB @ ''acme_ab12,'' @ NL
      @ TAB @ ''write'' @ NL
      @ TAB @ ''int fd, const char* buf'' @ NL
      @ ''    );'' @ NL
      @ ''}''"
    by (simp add: probe_wrapper_def write_probe_def display_usize.simps digit_char_def)
  have sig: "sublist (strip_layout ''acme_ab12_write(int fd, const char* buf)'')
         (strip_layout (probe_wrapper ''acme_ab12'' write_probe))"
    unfolding rendered by code_simp
  have inv: "sublist (strip_layout ''STAP_PROBE2(acme_ab12, write int fd, const char* buf);'')
         (strip_layout (probe_wrapper ''acme_ab12'' write_probe))"
    unfolding rendered by code_simp
  have no_comma: "\<not> sublist (strip_layout ''(acme_ab12, write, int fd, const char* buf)'')
         (strip_layout (probe_wrapper ''acme_ab12'' write_probe))"
    unfolding rendered by code_simp
  from rendered sig inv no_comma show ?thesis by blast
qed

subsection \<open>The macro's suffix and the parameter list\<close>

text \<open>
  C2. When the probe has \<open>N > 0\<close> arguments, the macro's name is \<open>STAP_PROBE\<close> followed
  by the decimal numeral of \<open>N\<close> (digits only, no leading zero, denoting \<open>N\<close>), and the
  signature lists the \<open>N\<close> pairs "type name" of the arguments, separated by \<open>, \<close> with
  no separator after the last.
\<close>

theorem probe_wrapper_suffix_is_arg_count:
  assumes "0 < length (args probe)"
  shows "probe_wrapper pnh probe =
      ''void '' @ pnh @ ''_'' @ probe.name probe @ ''('' @ NL
      @ ''    '' @ comma_separated (map type_name_pair (args probe)) @ NL
      @ '') {'' @ NL
      @ ''    STAP_PROBE'' @ display_usize (length (args probe)) @ ''('' @ NL
      @ TAB @ pnh @ '','' @ NL
      @ TAB @ probe.name probe @ NL
      @ TAB @ comma_separated (map type_name_pair (args probe)) @ NL
      @ ''    );'' @ NL
      @ ''}''
    \<and> length (map type_name_pair (args probe)) = length (args probe)
    \<and> decimal_value (display_usize (length (args probe))) = length (args probe)
    \<and> set (display_usize (length (args probe))) \<subseteq> set ''0123456789''
    \<and> hd (display_usize (length (args probe))) \<noteq> CHR ''0''"
  using assms
  by (simp add: probe_wrapper_def for_args_comma_separated decimal_value_display_usize
      display_usize_digits display_usize_no_leading_zero del: set_simps)

theorem probe_wrapper_suffix_is_arg_count_witness:
  "0 < length (args \<lparr> probe.name = ''read'',
                       args = [\<lparr> c_type = ''int'', argument.name = ''fd'' \<rparr>,
                               \<lparr> c_type = ''void*'', argument.name = ''buf'' \<rparr>,
                               \<lparr> c_type = ''size_t'', argument.name = ''count'' \<rparr>] \<rparr>)
   \<and> probe_wrapper ''io_9c''
        \<lparr> probe.name = ''read'',
          args = [\<lparr> c_type = ''int'', argument.name = ''fd'' \<rparr>,
                  \<lparr> c_type = ''void*'', argument.name = ''buf'' \<rparr>,
                  \<lparr> c_type = ''size_t'', argument.name = ''count'' \<rparr>] \<rparr>
      = ''void io_9c_read('' @ NL
        @ ''    int fd, void* buf, size_t count'' @ NL
        @ '') {'' @ NL
        @ ''    STAP_PROBE3('' @ NL
        @ TAB @ ''io_9c,'' @ NL
        @ TAB @ ''read'' @ NL
        @ TAB @ ''int fd, void* buf, size_t count'' @ NL
        @ ''    );'' @ NL
        @ ''}''"
proof -
  define read_probe where "read_probe =
     \<lparr> probe.name = ''read'',
       args = [\<lparr> c_type = ''int'', argument.name = ''fd'' \<rparr>,
               \<lparr> c_type = ''void*'', argument.name = ''buf'' \<rparr>,
               \<lparr> c_type = ''size_t'', argument.name = ''count'' \<rparr>] \<rparr>"
  have some: "0 < length (args read_probe)"
    by (simp add: read_probe_def)
  have three: "display_usize (length (args read_probe)) = ''3''"
    by (simp add: read_probe_def display_usize.simps digit_char_def)
  have pairs: "comma_separated (map type_name_pair (args read_probe))
      = ''int fd, void* buf, size_t count''"
    by (simp add: read_probe_def type_name_pair_def)
  have name: "probe.name read_probe = ''read''"
    by (simp add: read_probe_def)
  from probe_wrapper_suffix_is_arg_count [OF some, of "''io_9c''"]
  have "probe_wrapper ''io_9c'' read_probe =
      ''void '' @ ''io_9c'' @ ''_'' @ probe.name read_probe @ ''('' @ NL
      @ ''    '' @ comma_separated (map type_name_pair (args read_probe)) @ NL
      @ '') {'' @ NL
      @ ''    STAP_PROBE'' @ display_usize (length (args read_probe)) @ ''('' @ NL
      @ TAB @ ''io_9c'' @ '','' @ NL
      @ TAB @ probe.name read_probe @ NL
      @ TAB @ comma_separated (map type_name_pair (args read_probe)) @ NL
      @ ''    );'' @ NL
      @ ''}''"
    by blast
  then have "probe_wrapper ''io_9c'' read_probe =
      ''void io_9c_read('' @ NL
        @ ''    int fd, void* buf, size_t count'' @ NL
        @ '') {'' @ NL
        @ ''    STAP_PROBE3('' @ NL
        @ TAB @ ''io_9c,'' @ NL
        @ TAB @ ''read'' @ NL
        @ TAB @ ''int fd, void* buf, size_t count'' @ NL
        @ ''    );'' @ NL
        @ ''}''"
    unfolding three pairs name by simp
  with some show ?thesis unfolding read_probe_def by blast
qed

subsection \<open>A probe without arguments\<close>

text \<open>
  C3. When the probe's argument list is empty, the macro is invoked under the plain name
  \<open>STAP_PROBE\<close>, directly followed by its opening parenthesis, and the parentheses of
  the signature hold a line break, the indentation and a line break, and nothing else:
  read without the layout, the text is \<open>void P_N(){STAP_PROBE(P,N);}\<close> for the provider
  name \<open>P\<close> and the probe name \<open>N\<close>.
\<close>

theorem probe_wrapper_no_args:
  assumes "args probe = []"
  shows "probe_wrapper pnh probe =
      ''void '' @ pnh @ ''_'' @ probe.name probe @ ''('' @ NL
      @ ''    '' @ NL
      @ '') {'' @ NL
      @ ''    STAP_PROBE('' @ NL
      @ TAB @ pnh @ '','' @ NL
      @ TAB @ probe.name probe @ NL
      @ TAB @ NL
      @ ''    );'' @ NL
      @ ''}''
    \<and> strip_layout (probe_wrapper pnh probe) =
        ''void'' @ strip_layout pnh @ ''_'' @ strip_layout (probe.name probe)
        @ ''(){STAP_PROBE(''
        @ strip_layout pnh @ '','' @ strip_layout (probe.name probe) @ '');}''"
  using assms
  by (simp add: probe_wrapper_def strip_layout_def is_space_def)

theorem probe_wrapper_no_args_witness:
  "args \<lparr> probe.name = ''commit'', args = [] \<rparr> = []
   \<and> probe_wrapper ''db_7f'' \<lparr> probe.name = ''commit'', args = [] \<rparr> =
      ''void db_7f_commit('' @ NL
      @ ''    '' @ NL
      @ '') {'' @ NL
      @ ''    STAP_PROBE('' @ NL
      @ TAB @ ''db_7f,'' @ NL
      @ TAB @ ''commit'' @ NL
      @ TAB @ NL
      @ ''    );'' @ NL
      @ ''}''
   \<and> strip_layout (probe_wrapper ''db_7f'' \<lparr> probe.name = ''commit'', args = [] \<rparr>) =
      ''voiddb_7f_commit(){STAP_PROBE(db_7f,commit);}''"
proof -
  have none: "args \<lparr> probe.name = ''commit'', args = [] \<rparr> = []"
    by simp
  from probe_wrapper_no_args [OF none, of "''db_7f''"] none
  show ?thesis by (simp add: strip_layout_def is_space_def)
qed

subsection \<open>The order of the arguments\<close>

text \<open>
  C4. For every probe, the signature and the macro invocation both hold the
  comma-separated list of the probe's arguments: one pair "type name" per argument, the
  pair at position \<open>i\<close> made of the type and the name of the argument at position \<open>i\<close>
  of the descriptor, with \<open>, \<close> between two consecutive pairs and nothing after the
  last one.
\<close>

theorem probe_wrapper_argument_order:
  "probe_wrapper pnh probe =
      ''void '' @ pnh @ ''_'' @ probe.name probe @ ''('' @ NL
      @ ''    '' @ comma_separated (map type_name_pair (args probe)) @ NL
      @ '') {'' @ NL
      @ ''    '' @ macro_name probe @ ''('' @ NL
      @ TAB @ pnh @ '','' @ NL
      @ TAB @ probe.name probe @ NL
      @ TAB @ comma_separated (map type_name_pair (args probe)) @ NL
      @ ''    );'' @ NL
      @ ''}''
    \<and> length (map type_name_pair (args probe)) = length (args probe)
    \<and> (\<forall>i < length (args probe).
          map type_name_pair (args probe) ! i
            = c_type (args probe ! i) @ '' '' @ argument.name (args probe ! i))"
  by (simp add: probe_wrapper_def macro_name_def for_args_comma_separated type_name_pair_def)

theorem probe_wrapper_argument_order_witness:
  "probe_wrapper ''acme_ab12'' write_probe =
      ''void acme_ab12_write('' @ NL
      @ ''    '' @ comma_separated [''int fd'', ''const char* buf''] @ NL
      @ '') {'' @ NL
      @ ''    STAP_PROBE2('' @ NL
      @ TAB @ ''acme_ab12,'' @ NL
      @ TAB @ ''write'' @ NL
      @ TAB @ comma_separated [''int fd'', ''const char* buf''] @ NL
      @ ''    );'' @ NL
      @ ''}''
   \<and> (1::nat) < length (args write_probe)
   \<and> map type_name_pair (args write_probe) ! 1 = ''const char* buf''"
proof -
  have len: "(1::nat) < length (args write_probe)"
    by (simp add: write_probe_def)
  have name: "macro_name write_probe = ''STAP_PROBE2''"
    by (simp add: macro_name_def write_probe_def display_usize.simps digit_char_def)
  have pairs: "map type_name_pair (args write_probe) = [''int fd'', ''const char* buf'']"
    by (simp add: write_probe_def type_name_pair_def)
  have snd: "c_type (args write_probe ! 1) @ '' '' @ argument.name (args write_probe ! 1)
      = ''const char* buf''"
    by (simp add: write_probe_def)
  from probe_wrapper_argument_order [of "''acme_ab12''" write_probe] len
  have "probe_wrapper ''acme_ab12'' write_probe =
      ''void '' @ ''acme_ab12'' @ ''_'' @ probe.name write_probe @ ''('' @ NL
      @ ''    '' @ comma_separated (map type_name_pair (args write_probe)) @ NL
      @ '') {'' @ NL
      @ ''    '' @ macro_name write_probe @ ''('' @ NL
      @ TAB @ ''acme_ab12'' @ '','' @ NL
      @ TAB @ probe.name write_probe @ NL
      @ TAB @ comma_separated (map type_name_pair (args write_probe)) @ NL
      @ ''    );'' @ NL
      @ ''}''"
    and "map type_name_pair (args write_probe) ! 1
            = c_type (args write_probe ! 1) @ '' '' @ argument.name (args write_probe ! 1)"
    by blast+
  then show ?thesis
    unfolding name snd unfolding pairs using len by (simp add: write_probe_def)
qed

subsection \<open>The scenario without arguments\<close>

text \<open>
  C5. For the provider with the disambiguated name \<open>acme_ab12\<close> and the probe \<open>enter\<close>
  without arguments, the function is named \<open>acme_ab12_enter\<close>, the provider's name, an
  underscore and the probe's name; its parameter list is empty, and its body invokes
  \<open>STAP_PROBE\<close>, without suffix, on \<open>(acme_ab12, enter)\<close>. The theorem gives the text
  character by character, and shows that it is the one-line text of the scenario up to
  layout.
\<close>

theorem probe_wrapper_enter_scenario:
  "render acme enter_probe =
      ''void acme_ab12_enter('' @ NL
      @ ''    '' @ NL
      @ '') {'' @ NL
      @ ''    STAP_PROBE('' @ NL
      @ TAB @ ''acme_ab12,'' @ NL
      @ TAB @ ''enter'' @ NL
      @ TAB @ NL
      @ ''    );'' @ NL
      @ ''}''
   \<and> strip_layout (render acme enter_probe) =
       strip_layout ''void acme_ab12_enter() { STAP_PROBE(acme_ab12, enter); }''"
  by (simp add: render_def acme_def probe_wrapper_def enter_probe_def strip_layout_def
      is_space_def)

section \<open>Properties of the capability probe\<close>

lemma main_recording:
  "main (recording lib) arc argv (log, w) =
     (case providerInit lib ''foo'' w of
        None \<Rightarrow> None
      | Some (p, w1) \<Rightarrow>
          (case providerDestroy lib p w1 of
             None \<Rightarrow> None
           | Some w2 \<Rightarrow>
               Some (0, (log @ [Call_providerInit ''foo'', Call_providerDestroy p], w2))))"
  by (simp add: main_def recording_def split: option.splits)

text \<open>
  C7. Against any library, the program completes exactly when \<open>providerInit\<close>, called
  with the name \<open>foo\<close>, returns, and \<open>providerDestroy\<close>, called with the pointer it
  returned, returns too. A run that completes has made these two calls, in this order,
  and no other; the world outside is the one the second call left, and the exit code
  is 0. A run that does not complete is one in which one of the two calls did not
  return.
\<close>

theorem main_init_then_destroy_exit_0:
  "(main (recording lib) arc argv ([], w) = Some (code, (log, w'))
      \<longleftrightarrow> code = 0
        \<and> (\<exists>p w1. providerInit lib ''foo'' w = Some (p, w1)
              \<and> providerDestroy lib p w1 = Some w'
              \<and> log = [Call_providerInit ''foo'', Call_providerDestroy p]))
   \<and> (main (recording lib) arc argv ([], w) = None
      \<longleftrightarrow> providerInit lib ''foo'' w = None
        \<or> (\<exists>p w1. providerInit lib ''foo'' w = Some (p, w1)
              \<and> providerDestroy lib p w1 = None))"
  by (auto simp: main_recording split: option.splits)

theorem main_init_then_destroy_exit_0_witness:
  "main (recording working_lib) 1 [''test-libstapsdt''] ([], 0)
      = Some (0, ([Call_providerInit ''foo'', Call_providerDestroy (Provider 0)], 0))
   \<and> main (recording failing_lib) 1 [''test-libstapsdt''] ([], 0)
      = Some (0, ([Call_providerInit ''foo'', Call_providerDestroy NULL], 0))
   \<and> main (recording (working_lib \<lparr> providerInit := \<lambda>name n. Some (NULL, n) \<rparr>))
        1 [''test-libstapsdt''] ([], 0) = None
   \<and> main (recording (working_lib \<lparr> providerInit := \<lambda>name n. None \<rparr>))
        1 [''test-libstapsdt''] ([], 0) = None"
proof -
  have init: "providerInit working_lib ''foo'' 0 = Some (Provider 0, 1)"
    by (simp add: working_lib_def)
  have destroy: "providerDestroy working_lib (Provider 0) 1 = Some 0"
    by (simp add: working_lib_def)
  from main_init_then_destroy_exit_0
    [of working_lib 1 "[''test-libstapsdt'']" 0 0
      "[Call_providerInit ''foo'', Call_providerDestroy (Provider 0)]" 0]
    init destroy
  have works: "main (recording working_lib) 1 [''test-libstapsdt''] ([], 0)
      = Some (0, ([Call_providerInit ''foo'', Call_providerDestroy (Provider 0)], 0))"
    by blast
  have init_null: "providerInit failing_lib ''foo'' 0 = Some (NULL, 0)"
    by (simp add: failing_lib_def)
  have destroy_null: "providerDestroy failing_lib NULL 0 = Some 0"
    by (simp add: failing_lib_def)
  from main_init_then_destroy_exit_0
    [of failing_lib 1 "[''test-libstapsdt'']" 0 0
      "[Call_providerInit ''foo'', Call_providerDestroy NULL]" 0]
    init_null destroy_null
  have fails: "main (recording failing_lib) 1 [''test-libstapsdt''] ([], 0)
      = Some (0, ([Call_providerInit ''foo'', Call_providerDestroy NULL], 0))"
    by blast
  have init2:
    "providerInit (working_lib \<lparr> providerInit := \<lambda>name n. Some (NULL, n) \<rparr>) ''foo'' 0
      = Some (NULL, 0)"
    by simp
  have destroy2:
    "providerDestroy (working_lib \<lparr> providerInit := \<lambda>name n. Some (NULL, n) \<rparr>) NULL 0
      = None"
    by (simp add: working_lib_def)
  from main_init_then_destroy_exit_0
    [of "working_lib \<lparr> providerInit := \<lambda>name n. Some (NULL, n) \<rparr>" 1
      "[''test-libstapsdt'']" 0]
    init2 destroy2
  have faults: "main (recording (working_lib \<lparr> providerInit := \<lambda>name n. Some (NULL, n) \<rparr>))
        1 [''test-libstapsdt''] ([], 0) = None"
    by blast
  have init3: "providerInit (working_lib \<lparr> providerInit := \<lambda>name n. None \<rparr>) ''foo'' 0 = None"
    by simp
  from main_init_then_destroy_exit_0
    [of "working_lib \<lparr> providerInit := \<lambda>name n. None \<rparr>" 1 "[''test-libstapsdt'']" 0]
    init3
  have never: "main (recording (working_lib \<lparr> providerInit := \<lambda>name n. None \<rparr>))
        1 [''test-libstapsdt''] ([], 0) = None"
    by blast
  from works fails faults never show ?thesis by blast
qed

text \<open>
  C8. The program handles no error. Whatever pointer \<open>providerInit\<close> returns, the null
  pointer like any other, the program goes on in the same way: it calls
  \<open>providerDestroy\<close> with it, and ends with exit code 0 when that call returns. No run
  ends with another exit code, so that no failure at run time is ever reported.
\<close>

theorem main_never_tests_provider:
  assumes "providerInit lib ''foo'' w = Some (p, w1)"
  shows "main lib arc argv w =
           (case providerDestroy lib p w1 of None \<Rightarrow> None | Some w2 \<Rightarrow> Some (0, w2))
    \<and> (\<forall>code w'. main lib arc argv w = Some (code, w') \<longrightarrow> code = 0)"
  using assms by (auto simp: main_def split: option.splits)

theorem main_never_tests_provider_witness:
  "providerInit failing_lib ''foo'' 0 = Some (NULL, 0)
   \<and> main failing_lib 1 [''test-libstapsdt''] 0 = Some (0, 0)"
proof -
  have init: "providerInit failing_lib ''foo'' 0 = Some (NULL, 0)"
    by (simp add: failing_lib_def)
  have destroy: "providerDestroy failing_lib NULL 0 = Some 0"
    by (simp add: failing_lib_def)
  from main_never_tests_provider [OF init, of 1 "[''test-libstapsdt'']"]
  have "main failing_lib 1 [''test-libstapsdt''] 0 =
          (case providerDestroy failing_lib NULL 0 of None \<Rightarrow> None | Some w2 \<Rightarrow> Some (0, w2))"
    by blast
  with init show ?thesis unfolding destroy by simp
qed

text \<open>
  C9. Whatever the command line, the name passed to \<open>providerInit\<close> is \<open>foo\<close>, and the
  argument of \<open>providerDestroy\<close> is the pointer \<open>providerInit\<close> returned, the null
  pointer included: when both calls return, the program has made these two calls and
  no other, and another command line changes nothing.
\<close>

theorem main_passes_foo_and_returned_pointer:
  assumes "providerInit lib ''foo'' w = Some (p, w1)"
    and "providerDestroy lib p w1 = Some w2"
  shows "main (recording lib) arc argv ([], w)
           = Some (0, ([Call_providerInit ''foo'', Call_providerDestroy p], w2))
    \<and> main (recording lib) arc' argv' ([], w) = main (recording lib) arc argv ([], w)"
  using assms by (simp add: main_recording)

theorem main_passes_foo_and_returned_pointer_witness:
  "providerInit failing_lib ''foo'' 3 = Some (NULL, 3)
   \<and> providerDestroy failing_lib NULL 3 = Some 3
   \<and> main (recording failing_lib) 2 [''test-libstapsdt'', ''bar''] ([], 3)
        = Some (0, ([Call_providerInit ''foo'', Call_providerDestroy NULL], 3))
   \<and> main (recording failing_lib) 1 [''test-libstapsdt''] ([], 3)
        = main (recording failing_lib) 2 [''test-libstapsdt'', ''bar''] ([], 3)"
proof -
  have init: "providerInit failing_lib ''foo'' 3 = Some (NULL, 3)"
    by (simp add: failing_lib_def)
  have destroy: "providerDestroy failing_lib NULL 3 = Some 3"
    by (simp add: failing_lib_def)
  from main_passes_foo_and_returned_pointer
    [OF init destroy, of 2 "[''test-libstapsdt'', ''bar'']" 1 "[''test-libstapsdt'']"]
    init destroy
  show ?thesis by blast
qed

section \<open>The shape of the generated function\<close>














end
